theory Spec2Isabelle
  imports Main "HOL-Library.Char_ord" "HOL-Library.List_Lexorder" "HOL-Library.Multiset"
begin

section \<open>The distributed inference driver \<^verbatim>\<open>example_xla.py\<close>\<close>

text \<open>
  The driver is effectful Python: it mutates two pieces of process-global state (the
  default tensor type of torch and \<^verbatim>\<open>sys.stdout\<close>), it calls collaborators
  (torch, the model package, the XLA runtime) and it raises. The embedding threads an
  explicit process state through every statement, returns errors as values and appends
  every call to a collaborator to a trace, so that the order of effects can be stated.
  What a collaborator answers is a field of the record \<open>world\<close>; the driver's own
  control flow is translated line by line.
\<close>

subsection \<open>Values\<close>

text \<open>
  Floats are kept symbolic: a float is either an opaque measurement (a clock reading, a
  latency reported by the generation handle, a command-line literal) or the expression
  the driver builds from such values. The rounding of float arithmetic is outside the
  model; which operations are applied to which operands is inside it.
\<close>

datatype pynum =
    PyInt int
  | PyFloat nat
  | Clock nat
  | Add pynum pynum
  | Sub pynum pynum
  | TrueDiv pynum pynum
  | Mul pynum pynum

datatype pyval = PInt int | PBool bool | PNum string | PStr string

datatype tensor_type = FloatTensor | DoubleTensor | BFloat16Tensor | CudaHalfTensor

datatype device = Cpu | Xla nat

datatype stream = Stdout | DevNull

datatype path = Path string string

record tensor =
  tid :: nat
  tdev :: device
  dtype :: tensor_type

type_synonym params = "(string \<times> pyval) list"

type_synonym state_dict = "(string \<times> tensor) list"

record model_args =
  ma_max_seq_len :: int
  ma_max_batch_size :: int
  ma_params :: params
  vocab_size :: int

record tokenizer =
  model_path :: string
  n_words :: int

record model =
  margs :: model_args
  parameters :: state_dict
  cache_kvs :: "tensor list list"

text \<open>
  Modelled from the spec: the generation handle \<^verbatim>\<open>LLaMA\<close> of the model package, which
  is not part of the driver's file. It is built from a model and a tokenizer and keeps
  the latency record as two lists, one entry appended to each per generation call. The
  handle is a mutable object: the value below is a reference (\<open>gid\<close> numbers the
  handles of a process in the order of their construction), and the two lists live in
  the process state under that number.
\<close>

record generator =
  llama_model :: model
  llama_tokenizer :: tokenizer
  gid :: nat

subsection \<open>Errors, messages, events\<close>

datatype error =
    AssertionError string
  | IndexError
  | ZeroDivisionError
  | NameError string
  | Raised string

text \<open>
  The lines the driver prints. Formatted numbers stay structured: the constructor says
  which print statement it is, the arguments are the values interpolated into it.
\<close>

datatype msg =
    Loading
  | Loaded pynum
  | Result string
  | Separator
  | EnvInfoHeader
  | EnvInfo bool bool bool int
  | RunInfo string int int
  | MeanLatency pynum
  | MeanPerTokenLatency pynum

datatype event =
    Print stream msg
  | Glob string string
  | TorchLoad path
  | ReadJson path
  | NewModelArgs int int params
  | NewTokenizer string
  | SetDefaultTensorType tensor_type
  | NewTransformer model_args tensor_type
  | LoadStateDict
  | ModuleTo device
  | TensorTo tensor device
  | Generate "string list" int device pynum pynum
  | ManualSeed int
  | SetRngState int device

subsection \<open>Process state and the world\<close>

record pstate =
  default_tensor_type :: tensor_type
  sys_stdout :: stream
  runtime :: "(int \<times> int) option"
  ticks :: nat
  next_id :: nat
  latency_list :: "nat \<Rightarrow> pynum list"
  per_token_latency_list :: "nat \<Rightarrow> pynum list"
  trace :: "event list"

record world =
  USE_CUDA :: bool
  USE_XLA :: bool
  USE_TORCH_DYNAMO :: bool
  GPU_NUM_DEVICES :: int
  o_glob :: "string \<Rightarrow> string \<Rightarrow> string list"
  o_torch_load :: "path \<Rightarrow> string + state_dict"
  o_read_json :: "path \<Rightarrow> string + params"
  o_ModelArgs :: "int \<Rightarrow> int \<Rightarrow> params \<Rightarrow> string + model_args"
  o_Tokenizer :: "string \<Rightarrow> string + tokenizer"
  o_Transformer :: "model_args \<Rightarrow> tensor_type \<Rightarrow> string + model"
  o_load_state_dict :: "model \<Rightarrow> state_dict \<Rightarrow> string option"
  o_module_to :: "model \<Rightarrow> device \<Rightarrow> string option"
  o_tensor_to :: "tensor \<Rightarrow> device \<Rightarrow> string option"
  o_generate :: "nat \<Rightarrow> nat \<Rightarrow> string list \<Rightarrow> int \<Rightarrow> device \<Rightarrow> pynum \<Rightarrow> pynum
                   \<Rightarrow> string + (string list \<times> pynum \<times> pynum)"
  o_xla_device :: device
  o_devices :: nat
  o_child :: "nat \<Rightarrow> pstate"

subsection \<open>Sequencing statements that may raise\<close>

type_synonym 'a py = "pstate \<Rightarrow> (error + 'a) \<times> pstate"

definition ret :: "'a \<Rightarrow> 'a py" where
  "ret x s = (Inr x, s)"

definition raise :: "error \<Rightarrow> 'a py" where
  "raise e s = (Inl e, s)"

definition bnd :: "'a py \<Rightarrow> ('a \<Rightarrow> 'b py) \<Rightarrow> 'b py" where
  "bnd m f s = (case m s of (Inl e, s') \<Rightarrow> (Inl e, s') | (Inr x, s') \<Rightarrow> f x s')"

definition emit :: "event \<Rightarrow> unit py" where
  "emit e s = (Inr (), s\<lparr>trace := trace s @ [e]\<rparr>)"

definition answer :: "string + 'a \<Rightarrow> 'a py" where
  "answer r = (case r of Inl m \<Rightarrow> raise (Raised m) | Inr x \<Rightarrow> ret x)"

definition refusal :: "string option \<Rightarrow> unit py" where
  "refusal r = (case r of Some m \<Rightarrow> raise (Raised m) | None \<Rightarrow> ret ())"

subsection \<open>Python built-ins\<close>

definition py_print :: "msg \<Rightarrow> unit py" where
  "py_print m s = emit (Print (sys_stdout s) m) s"

definition time_time :: "pynum py" where
  "time_time s = (Inr (Clock (ticks s)), s\<lparr>ticks := Suc (ticks s)\<rparr>)"

definition py_assert :: "bool \<Rightarrow> string \<Rightarrow> unit py" where
  "py_assert b m = (if b then ret () else raise (AssertionError m))"

definition py_index :: "'a list \<Rightarrow> int \<Rightarrow> 'a py" where
  "py_index xs i =
     (let n = int (length xs); j = (if i < 0 then n + i else i)
      in if 0 \<le> j \<and> j < n then ret (xs ! nat j) else raise IndexError)"

definition py_sum :: "pynum list \<Rightarrow> pynum" where
  "py_sum xs = foldl Add (PyInt 0) xs"

definition py_truediv :: "pynum \<Rightarrow> int \<Rightarrow> pynum py" where
  "py_truediv a n = (if n = 0 then raise ZeroDivisionError else ret (TrueDiv a (PyInt n)))"

fun str_nat :: "nat \<Rightarrow> string" where
  "str_nat n = (if n < 10 then [''0123456789'' ! n]
                else str_nat (n div 10) @ [''0123456789'' ! (n mod 10)])"

definition str_int :: "int \<Rightarrow> string" where
  "str_int i = (if i < 0 then CHR ''-'' # str_nat (nat (- i)) else str_nat (nat i))"

subsection \<open>Collaborators\<close>

text \<open>
  Each call is recorded in the trace before the world answers it, so a call that raises
  is still visible as attempted.
\<close>

definition path_glob :: "world \<Rightarrow> string \<Rightarrow> string \<Rightarrow> string list py" where
  "path_glob w d pat = bnd (emit (Glob d pat)) (\<lambda>_. ret (o_glob w d pat))"

definition torch_load :: "world \<Rightarrow> path \<Rightarrow> state_dict py" where
  "torch_load w p = bnd (emit (TorchLoad p)) (\<lambda>_. answer (o_torch_load w p))"

definition read_json :: "world \<Rightarrow> path \<Rightarrow> params py" where
  "read_json w p = bnd (emit (ReadJson p)) (\<lambda>_. answer (o_read_json w p))"

definition ModelArgs :: "world \<Rightarrow> int \<Rightarrow> int \<Rightarrow> params \<Rightarrow> model_args py" where
  "ModelArgs w msl mbs ps = bnd (emit (NewModelArgs msl mbs ps)) (\<lambda>_. answer (o_ModelArgs w msl mbs ps))"

definition Tokenizer :: "world \<Rightarrow> string \<Rightarrow> tokenizer py" where
  "Tokenizer w p = bnd (emit (NewTokenizer p)) (\<lambda>_. answer (o_Tokenizer w p))"

definition set_default_tensor_type :: "tensor_type \<Rightarrow> unit py" where
  "set_default_tensor_type t s =
     (Inr (), s\<lparr>default_tensor_type := t, trace := trace s @ [SetDefaultTensorType t]\<rparr>)"

definition Transformer :: "world \<Rightarrow> model_args \<Rightarrow> model py" where
  "Transformer w a s =
     bnd (emit (NewTransformer a (default_tensor_type s)))
         (\<lambda>_. answer (o_Transformer w a (default_tensor_type s))) s"

text \<open>
  \<^verbatim>\<open>load_state_dict(checkpoint, strict=False)\<close>: a parameter of the model named in the
  checkpoint takes the checkpoint's data and stays where it is; the other parameters keep
  their values; names the model does not have are ignored.
\<close>

definition load_state_dict :: "world \<Rightarrow> model \<Rightarrow> state_dict \<Rightarrow> model py" where
  "load_state_dict w m sd =
     bnd (emit LoadStateDict) (\<lambda>_.
     bnd (refusal (o_load_state_dict w m sd)) (\<lambda>_.
     ret (m\<lparr>parameters :=
              map (\<lambda>(k, t). (k, case map_of sd k of Some t' \<Rightarrow> t\<lparr>tid := tid t'\<rparr> | None \<Rightarrow> t))
                  (parameters m)\<rparr>)))"

definition module_to :: "world \<Rightarrow> model \<Rightarrow> device \<Rightarrow> model py" where
  "module_to w m d =
     bnd (emit (ModuleTo d)) (\<lambda>_.
     bnd (refusal (o_module_to w m d)) (\<lambda>_.
     ret (m\<lparr>parameters := map (\<lambda>(k, t). (k, t\<lparr>tdev := d\<rparr>)) (parameters m)\<rparr>)))"

definition tensor_to :: "world \<Rightarrow> device \<Rightarrow> tensor \<Rightarrow> tensor py" where
  "tensor_to w d t =
     bnd (emit (TensorTo t d)) (\<lambda>_.
     bnd (refusal (o_tensor_to w t d)) (\<lambda>_.
     ret (t\<lparr>tdev := d\<rparr>)))"

definition xm_xla_device :: "world \<Rightarrow> device py" where
  "xm_xla_device w = (if USE_XLA w then ret (o_xla_device w) else raise (NameError ''xm''))"

text \<open>
  Modelled from the spec: constructing the generation handle from a model and a
  tokenizer; its latency record starts empty.
\<close>

definition LLaMA :: "model \<Rightarrow> tokenizer \<Rightarrow> generator py" where
  "LLaMA m t s =
     (Inr \<lparr>llama_model = m, llama_tokenizer = t, gid = next_id s\<rparr>,
      s\<lparr>next_id := Suc (next_id s),
        latency_list := (latency_list s)(next_id s := []),
        per_token_latency_list := (per_token_latency_list s)(next_id s := [])\<rparr>)"

text \<open>
  Modelled from the spec: \<^verbatim>\<open>generate\<close> returns the texts and appends the call's latency
  and per-token latency to the handle's record. What the world answers may differ from
  call to call: \<open>o_generate w i k\<close> is the answer to call number \<open>k\<close> (from 0) on
  handle \<open>i\<close>.
\<close>

definition generate ::
  "world \<Rightarrow> generator \<Rightarrow> string list \<Rightarrow> int \<Rightarrow> device \<Rightarrow> pynum \<Rightarrow> pynum \<Rightarrow> string list py" where
  "generate w g prompts max_gen_len d temperature top_p =
     bnd (emit (Generate prompts max_gen_len d temperature top_p)) (\<lambda>_.
     bnd (\<lambda>s. answer (o_generate w (gid g) (length (latency_list s (gid g)))
                                  prompts max_gen_len d temperature top_p) s)
         (\<lambda>(results, lat, tok_lat).
     bnd (\<lambda>s. (Inr (), s\<lparr>latency_list := (latency_list s)(gid g := latency_list s (gid g) @ [lat]),
                          per_token_latency_list :=
                            (per_token_latency_list s)(gid g := per_token_latency_list s (gid g) @ [tok_lat])\<rparr>))
         (\<lambda>_.
     ret results)))"

text \<open>Reading the two attributes of the handle.\<close>

definition get_latency_list :: "generator \<Rightarrow> pynum list py" where
  "get_latency_list g s = (Inr (latency_list s (gid g)), s)"

definition get_per_token_latency_list :: "generator \<Rightarrow> pynum list py" where
  "get_per_token_latency_list g s = (Inr (per_token_latency_list s (gid g)), s)"

subsection \<open>\<^verbatim>\<open>load\<close>\<close>

text \<open>
  The tuple comprehension of line 89: every tensor of one cache entry is sent to the
  device in turn; the first transfer that raises ends the call.
\<close>

fun migrate_tuple :: "world \<Rightarrow> device \<Rightarrow> tensor list \<Rightarrow> tensor list py" where
  "migrate_tuple w d [] = ret []"
| "migrate_tuple w d (t # ts) =
     bnd (tensor_to w d t) (\<lambda>t'.
     bnd (migrate_tuple w d ts) (\<lambda>ts'.
     ret (t' # ts')))"

text \<open>
  The loop of lines 88-89 over \<^verbatim>\<open>range(len(model.cache_kvs))\<close>, counting the remaining
  iterations down: iteration \<open>i\<close> replaces entry \<open>i\<close> of the model's cache list.
\<close>

fun migrate_cache_kvs :: "world \<Rightarrow> device \<Rightarrow> nat \<Rightarrow> nat \<Rightarrow> model \<Rightarrow> model py" where
  "migrate_cache_kvs w d i 0 m = ret m"
| "migrate_cache_kvs w d i (Suc k) m =
     bnd (migrate_tuple w d (cache_kvs m ! i)) (\<lambda>ts.
     migrate_cache_kvs w d (Suc i) k (m\<lparr>cache_kvs := (cache_kvs m)[i := ts]\<rparr>))"

definition shard_mismatch :: "nat \<Rightarrow> int \<Rightarrow> string" where
  "shard_mismatch n world_size =
     ''Loading a checkpoint for MP='' @ str_int (int n) @ '' but world size is '' @ str_int world_size"

text \<open>
  Lines 59-63. The paths that \<^verbatim>\<open>glob\<close> yields all lie in \<^verbatim>\<open>ckpt_dir\<close>, so sorting the
  paths is sorting the file names, as strings, by code point.
\<close>

definition select_shard :: "string list \<Rightarrow> int \<Rightarrow> int \<Rightarrow> string py" where
  "select_shard files world_size rank =
     (let checkpoints = sort files in
      bnd (py_assert (world_size = int (length checkpoints))
                     (shard_mismatch (length checkpoints) world_size)) (\<lambda>_.
      py_index checkpoints rank))"

definition load ::
  "world \<Rightarrow> string \<Rightarrow> string \<Rightarrow> int \<Rightarrow> int \<Rightarrow> int \<Rightarrow> int \<Rightarrow> device \<Rightarrow> int \<Rightarrow> int \<Rightarrow> int \<Rightarrow> bool
     \<Rightarrow> generator py" where
  "load w ckpt_dir tokenizer_path rank world_size max_seq_len max_batch_size dev
        dim n_layers n_heads quant =
     bnd time_time (\<lambda>start_time.
     bnd (py_print Loading) (\<lambda>_.
     bnd (if ckpt_dir \<noteq> [] then
            bnd (path_glob w ckpt_dir ''*.pth'') (\<lambda>files.
            bnd (select_shard files world_size rank) (\<lambda>ckpt_name.
            bnd (torch_load w (Path ckpt_dir ckpt_name)) (\<lambda>checkpoint.
            bnd (read_json w (Path ckpt_dir ''params.json'')) (\<lambda>params.
            ret (Some checkpoint, params)))))
          else
            ret (None, [(''dim'', PInt dim), (''n_layers'', PInt n_layers),
                        (''n_heads'', PInt n_heads), (''quant'', PBool quant)]))
       (\<lambda>(checkpoint, params).
     bnd (ModelArgs w max_seq_len max_batch_size params) (\<lambda>model_args.
     bnd (Tokenizer w tokenizer_path) (\<lambda>tokenizer.
     bnd (ret (model_args\<lparr>vocab_size := n_words tokenizer\<rparr>)) (\<lambda>model_args.
     bnd (if USE_CUDA w then set_default_tensor_type CudaHalfTensor
          else set_default_tensor_type BFloat16Tensor) (\<lambda>_.
     bnd (Transformer w model_args) (\<lambda>model.
     bnd (if ckpt_dir \<noteq> [] then
            (case checkpoint of
               Some sd \<Rightarrow> load_state_dict w model sd
             | None \<Rightarrow> raise (NameError ''checkpoint''))
          else ret model) (\<lambda>model.
     bnd (module_to w model dev) (\<lambda>model.
     bnd (migrate_cache_kvs w dev 0 (length (cache_kvs model)) model) (\<lambda>model.
     bnd (set_default_tensor_type FloatTensor) (\<lambda>_.
     bnd (LLaMA model tokenizer) (\<lambda>generator.
     bnd time_time (\<lambda>end_time.
     bnd (py_print (Loaded (Sub end_time start_time))) (\<lambda>_.
     ret generator)))))))))))))))"

subsection \<open>\<^verbatim>\<open>setup_model_parallel\<close>\<close>

text \<open>
  Modelled from the spec: the two topology queries of the model package's parallel
  layer, which is not part of the driver's file. They read this process's rank and the
  world size from the distributed runtime, and raise when the runtime has not been
  initialised.
\<close>

definition get_model_parallel_rank :: "int py" where
  "get_model_parallel_rank s =
     (case runtime s of
        None \<Rightarrow> raise (Raised ''runtime not initialized'') s
      | Some (r, n) \<Rightarrow> ret r s)"

definition get_model_parallel_world_size :: "int py" where
  "get_model_parallel_world_size s =
     (case runtime s of
        None \<Rightarrow> raise (Raised ''runtime not initialized'') s
      | Some (r, n) \<Rightarrow> ret n s)"

text \<open>
  The module \<^verbatim>\<open>xm\<close> is imported only when \<^verbatim>\<open>USE_XLA\<close> is set (lines 25-27), so every
  use of it elsewhere raises \<^verbatim>\<open>NameError\<close> otherwise.
\<close>

definition setup_model_parallel :: "world \<Rightarrow> (int \<times> int) py" where
  "setup_model_parallel w =
     bnd get_model_parallel_rank (\<lambda>rank.
     bnd get_model_parallel_world_size (\<lambda>world_size.
     bnd (emit (ManualSeed 1)) (\<lambda>_.
     bnd (xm_xla_device w) (\<lambda>dev.
     bnd (emit (SetRngState 1 dev)) (\<lambda>_.
     ret (rank, world_size))))))"

subsection \<open>\<^verbatim>\<open>main\<close>\<close>

definition prompts :: "string list" where
  "prompts = [''I believe the meaning of life is'']"

text \<open>Lines 160-162: each result of a timed call, then a separator.\<close>

fun print_results :: "string list \<Rightarrow> unit py" where
  "print_results [] = ret ()"
| "print_results (r # rs) =
     bnd (py_print (Result r)) (\<lambda>_.
     bnd (py_print Separator) (\<lambda>_.
     print_results rs))"

text \<open>
  Lines 152-162, by the number of iterations \<^verbatim>\<open>range(n_times)\<close> still has to give.
  \<^verbatim>\<open>torch.no_grad()\<close> changes gradient tracking only, which the model does not have.
\<close>

fun timed_calls :: "world \<Rightarrow> nat \<Rightarrow> pynum \<Rightarrow> pynum \<Rightarrow> generator \<Rightarrow> unit py" where
  "timed_calls w 0 temperature top_p g = ret ()"
| "timed_calls w (Suc k) temperature top_p g =
     bnd (xm_xla_device w) (\<lambda>dev.
     bnd (generate w g prompts 256 dev temperature top_p) (\<lambda>results.
     bnd (print_results results) (\<lambda>_.
     timed_calls w k temperature top_p g)))"

definition main ::
  "world \<Rightarrow> string \<Rightarrow> pynum \<Rightarrow> pynum \<Rightarrow> int \<Rightarrow> int \<Rightarrow> string \<Rightarrow> int \<Rightarrow> int \<Rightarrow> int \<Rightarrow> bool \<Rightarrow> int
     \<Rightarrow> unit py" where
  "main w tokenizer_path temperature top_p max_seq_len max_batch_size ckpt_dir
        dim n_layers n_heads quant n_times =
     bnd (setup_model_parallel w) (\<lambda>(rank, world_size).
     bnd (if rank > 0 then (\<lambda>s. (Inr (), s\<lparr>sys_stdout := DevNull\<rparr>)) else ret ()) (\<lambda>_.
     bnd (xm_xla_device w) (\<lambda>dev.
     bnd (load w ckpt_dir tokenizer_path rank world_size max_seq_len max_batch_size dev
               dim n_layers n_heads quant) (\<lambda>generator.
     bnd (xm_xla_device w) (\<lambda>dev.
     bnd (generate w generator prompts 256 dev temperature top_p) (\<lambda>results.
     bnd (timed_calls w (nat n_times) temperature top_p generator) (\<lambda>_.
     bnd (py_print EnvInfoHeader) (\<lambda>_.
     bnd (py_print (EnvInfo (USE_XLA w) (USE_CUDA w) (USE_TORCH_DYNAMO w) (GPU_NUM_DEVICES w))) (\<lambda>_.
     bnd (py_print (RunInfo ckpt_dir n_times max_batch_size)) (\<lambda>_.
     bnd (get_latency_list generator) (\<lambda>latencies.
     bnd (py_truediv (py_sum (drop 1 latencies)) n_times) (\<lambda>mean.
     bnd (py_print (MeanLatency mean)) (\<lambda>_.
     bnd (get_per_token_latency_list generator) (\<lambda>latencies.
     bnd (py_truediv (py_sum (drop 1 latencies)) n_times) (\<lambda>mean.
     py_print (MeanPerTokenLatency (Mul mean (PyInt 1000))))))))))))))))))"

subsection \<open>\<^verbatim>\<open>_fn\<close> and \<^verbatim>\<open>mp_main\<close>\<close>

definition fn ::
  "world \<Rightarrow> nat \<Rightarrow> string \<Rightarrow> pynum \<Rightarrow> pynum \<Rightarrow> int \<Rightarrow> int \<Rightarrow> string \<Rightarrow> int \<Rightarrow> int \<Rightarrow> int \<Rightarrow> bool \<Rightarrow> int
     \<Rightarrow> unit py" where
  "fn w idx tokenizer_path temperature top_p max_seq_len max_batch_size ckpt_dir
      dim n_layers n_heads quant n_times =
     main w tokenizer_path temperature top_p max_seq_len max_batch_size
          ckpt_dir dim n_layers n_heads quant n_times"

text \<open>
  \<^verbatim>\<open>xmp.spawn(f, args=a)\<close> of the XLA runtime starts one process per visible device and
  calls \<^verbatim>\<open>f(index, *a)\<close> in each. Every child has a process state of its own, which the
  world supplies; the model returns what each child's call comes to, in index order, and
  says nothing of how the children interleave.
\<close>

definition xmp_spawn :: "world \<Rightarrow> (nat \<Rightarrow> unit py) \<Rightarrow> ((error + unit) \<times> pstate) list" where
  "xmp_spawn w f = map (\<lambda>idx. f idx (o_child w idx)) [0..<o_devices w]"

datatype launch =
    Spawned "((error + unit) \<times> pstate) list"
  | InProcess "(error + unit) \<times> pstate"

definition mp_main ::
  "world \<Rightarrow> bool \<Rightarrow> string \<Rightarrow> pynum \<Rightarrow> pynum \<Rightarrow> int \<Rightarrow> int \<Rightarrow> string \<Rightarrow> int \<Rightarrow> int \<Rightarrow> int \<Rightarrow> bool \<Rightarrow> int
     \<Rightarrow> pstate \<Rightarrow> launch" where
  "mp_main w mp tokenizer_path temperature top_p max_seq_len max_batch_size ckpt_dir
           dim n_layers n_heads quant n_times s =
     (if mp \<and> USE_XLA w then
        Spawned (xmp_spawn w (\<lambda>idx. fn w idx tokenizer_path temperature top_p max_seq_len
                                       max_batch_size ckpt_dir dim n_layers n_heads
                                       quant n_times))
      else
        InProcess (main w tokenizer_path temperature top_p max_seq_len max_batch_size
                        ckpt_dir dim n_layers n_heads quant n_times s))"

section \<open>Runs, events and invariants\<close>

text \<open>The events a statement adds to the trace when it is run from a state.\<close>

definition run_events :: "'a py \<Rightarrow> pstate \<Rightarrow> event list" where
  "run_events m s = drop (length (trace s)) (trace (snd (m s)))"

text \<open>The checkpoint files read, in the order of reading.\<close>

fun loads :: "event list \<Rightarrow> path list" where
  "loads [] = []"
| "loads (TorchLoad p # es) = p # loads es"
| "loads (e # es) = loads es"

definition is_Raised :: "error \<Rightarrow> bool" where
  "is_Raised e = (case e of Raised m \<Rightarrow> True | _ \<Rightarrow> False)"

text \<open>
  \<open>frame R E m\<close>: every run of \<open>m\<close> relates the state before to the state after by \<open>R\<close>,
  whatever the outcome, and raises only errors in \<open>E\<close>. For a reflexive and transitive
  \<open>R\<close> the property passes through sequencing.
\<close>

definition frame :: "(pstate \<Rightarrow> pstate \<Rightarrow> bool) \<Rightarrow> (error \<Rightarrow> bool) \<Rightarrow> 'a py \<Rightarrow> bool" where
  "frame R E m \<longleftrightarrow> (\<forall>s. R s (snd (m s)) \<and> (\<forall>e. fst (m s) = Inl e \<longrightarrow> E e))"

definition ext :: "(event \<Rightarrow> bool) \<Rightarrow> pstate \<Rightarrow> pstate \<Rightarrow> bool" where
  "ext P s s' \<longleftrightarrow> (\<exists>es. s' = s\<lparr>trace := trace s @ es\<rparr> \<and> list_all P es)"

text \<open>
  \<open>logs P\<close> leaves \<^verbatim>\<open>sys.stdout\<close> alone and adds only events that satisfy \<open>P\<close>, which may
  depend on the stream that \<^verbatim>\<open>sys.stdout\<close> is.
\<close>

definition logs :: "(stream \<Rightarrow> event \<Rightarrow> bool) \<Rightarrow> pstate \<Rightarrow> pstate \<Rightarrow> bool" where
  "logs P s s' \<longleftrightarrow>
     sys_stdout s' = sys_stdout s \<and> (\<exists>es. trace s' = trace s @ es \<and> list_all (P (sys_stdout s)) es)"

text \<open>The precision that \<^verbatim>\<open>load\<close> selects for model construction (lines 80-83).\<close>

definition override :: "world \<Rightarrow> tensor_type" where
  "override w = (if USE_CUDA w then CudaHalfTensor else BFloat16Tensor)"

subsection \<open>The three phases of \<^verbatim>\<open>load\<close>\<close>

text \<open>
  For the proofs \<^verbatim>\<open>load\<close> is cut at two points: before the precision override (lines
  55-79), from the override to the end of the cache migration (lines 80-89), and the rest
  (lines 90-94). Lemma \<open>load_phases\<close> below shows that the three parts in sequence are
  \<open>load\<close>.
\<close>

definition load_manifest ::
  "world \<Rightarrow> string \<Rightarrow> int \<Rightarrow> int \<Rightarrow> int \<Rightarrow> int \<Rightarrow> int \<Rightarrow> bool \<Rightarrow> (state_dict option \<times> params) py" where
  "load_manifest w ckpt_dir rank world_size dim n_layers n_heads quant =
     (if ckpt_dir \<noteq> [] then
            bnd (path_glob w ckpt_dir ''*.pth'') (\<lambda>files.
            bnd (select_shard files world_size rank) (\<lambda>ckpt_name.
            bnd (torch_load w (Path ckpt_dir ckpt_name)) (\<lambda>checkpoint.
            bnd (read_json w (Path ckpt_dir ''params.json'')) (\<lambda>params.
            ret (Some checkpoint, params)))))
          else
            ret (None, [(''dim'', PInt dim), (''n_layers'', PInt n_layers),
                        (''n_heads'', PInt n_heads), (''quant'', PBool quant)]))"

definition load_head ::
  "world \<Rightarrow> string \<Rightarrow> string \<Rightarrow> int \<Rightarrow> int \<Rightarrow> int \<Rightarrow> int \<Rightarrow> int \<Rightarrow> int \<Rightarrow> int \<Rightarrow> bool
     \<Rightarrow> (pynum \<times> state_dict option \<times> model_args \<times> tokenizer) py" where
  "load_head w ckpt_dir tokenizer_path rank world_size max_seq_len max_batch_size dim n_layers n_heads quant =
     bnd time_time (\<lambda>start_time.
     bnd (py_print Loading) (\<lambda>_.
     bnd (load_manifest w ckpt_dir rank world_size dim n_layers n_heads quant) (\<lambda>(checkpoint, params).
     bnd (ModelArgs w max_seq_len max_batch_size params) (\<lambda>model_args.
     bnd (Tokenizer w tokenizer_path) (\<lambda>tokenizer.
     ret (start_time, checkpoint, model_args\<lparr>vocab_size := n_words tokenizer\<rparr>, tokenizer))))))"

definition load_place :: "world \<Rightarrow> string \<Rightarrow> state_dict option \<Rightarrow> model_args \<Rightarrow> device \<Rightarrow> model py" where
  "load_place w ckpt_dir checkpoint model_args dev =
     bnd (if USE_CUDA w then set_default_tensor_type CudaHalfTensor
          else set_default_tensor_type BFloat16Tensor) (\<lambda>_.
     bnd (Transformer w model_args) (\<lambda>model.
     bnd (if ckpt_dir \<noteq> [] then
            (case checkpoint of
               Some sd \<Rightarrow> load_state_dict w model sd
             | None \<Rightarrow> raise (NameError ''checkpoint''))
          else ret model) (\<lambda>model.
     bnd (module_to w model dev) (\<lambda>model.
     migrate_cache_kvs w dev 0 (length (cache_kvs model)) model))))"

definition load_tail :: "model \<Rightarrow> tokenizer \<Rightarrow> pynum \<Rightarrow> generator py" where
  "load_tail model tokenizer start_time =
     bnd (set_default_tensor_type FloatTensor) (\<lambda>_.
     bnd (LLaMA model tokenizer) (\<lambda>generator.
     bnd time_time (\<lambda>end_time.
     bnd (py_print (Loaded (Sub end_time start_time))) (\<lambda>_.
     ret generator))))"

text \<open>
  Python's indexing of the sorted shard list by \<open>rank\<close>: a negative index counts from the
  end (the list has \<open>world_size\<close> entries once the shard-count assertion has passed).
\<close>

definition shard_index :: "int \<Rightarrow> int \<Rightarrow> nat" where
  "shard_index world_size rank = nat (if rank < 0 then world_size + rank else rank)"

text \<open>
  The events of the three phases: those that the part before the override can add, those
  that placement can add after constructing the model, and those that read or apply
  checkpoint data.
\<close>

fun is_head_event :: "event \<Rightarrow> bool" where
  "is_head_event (Glob d p) = True"
| "is_head_event (TorchLoad p) = True"
| "is_head_event (ReadJson p) = True"
| "is_head_event (NewModelArgs a b c) = True"
| "is_head_event (NewTokenizer p) = True"
| "is_head_event e = False"

fun is_place_event :: "event \<Rightarrow> bool" where
  "is_place_event LoadStateDict = True"
| "is_place_event (ModuleTo d) = True"
| "is_place_event (TensorTo t d) = True"
| "is_place_event e = False"

fun is_weight_event :: "event \<Rightarrow> bool" where
  "is_weight_event (Glob d p) = True"
| "is_weight_event (TorchLoad p) = True"
| "is_weight_event (ReadJson p) = True"
| "is_weight_event LoadStateDict = True"
| "is_weight_event e = False"

fun is_tail_event :: "event \<Rightarrow> bool" where
  "is_tail_event (SetDefaultTensorType t) = (t = FloatTensor)"
| "is_tail_event (Print st m) = (case m of Loaded x \<Rightarrow> True | _ \<Rightarrow> False)"
| "is_tail_event e = False"

text \<open>The manifest that \<^verbatim>\<open>load\<close> builds from its own arguments (lines 68-73).\<close>

definition default_params :: "int \<Rightarrow> int \<Rightarrow> int \<Rightarrow> bool \<Rightarrow> params" where
  "default_params dim n_layers n_heads quant =
     [(''dim'', PInt dim), (''n_layers'', PInt n_layers), (''n_heads'', PInt n_heads), (''quant'', PBool quant)]"

text \<open>The shard that the rank selects in a checkpoint directory.\<close>

definition shard_path :: "world \<Rightarrow> string \<Rightarrow> int \<Rightarrow> int \<Rightarrow> path" where
  "shard_path w ckpt_dir world_size rank =
     Path ckpt_dir (sort (o_glob w ckpt_dir ''*.pth'') ! shard_index world_size rank)"

subsection \<open>A concrete world\<close>

text \<open>
  A world with a two-shard checkpoint directory \<^verbatim>\<open>ckpt\<close>, one cache pair and collaborators
  that never raise, and a process state as a fresh process has it.
\<close>

definition world0 :: world where
  "world0 = \<lparr>USE_CUDA = False, USE_XLA = True, USE_TORCH_DYNAMO = True, GPU_NUM_DEVICES = 0,
     o_glob = (\<lambda>d pat. if d = ''ckpt'' then [''shard1.pth'', ''shard0.pth''] else []),
     o_torch_load = (\<lambda>p. Inr [(''w'', \<lparr>tid = 7, tdev = Cpu, dtype = FloatTensor\<rparr>)]),
     o_read_json = (\<lambda>p. Inr [(''dim'', PInt 256)]),
     o_ModelArgs = (\<lambda>msl mbs ps. Inr \<lparr>ma_max_seq_len = msl, ma_max_batch_size = mbs, ma_params = ps, vocab_size = -1\<rparr>),
     o_Tokenizer = (\<lambda>p. Inr \<lparr>model_path = p, n_words = 32000\<rparr>),
     o_Transformer = (\<lambda>a ty. Inr \<lparr>margs = a, parameters = [(''w'', \<lparr>tid = 0, tdev = Cpu, dtype = ty\<rparr>)],
         cache_kvs = [[\<lparr>tid = 1, tdev = Cpu, dtype = ty\<rparr>, \<lparr>tid = 2, tdev = Cpu, dtype = ty\<rparr>]]\<rparr>),
     o_load_state_dict = (\<lambda>m sd. None), o_module_to = (\<lambda>m d. None), o_tensor_to = (\<lambda>t d. None),
     o_generate = (\<lambda>i k ps n d t p. Inr ([''42''], PyFloat k, PyFloat (100 + k))),
     o_xla_device = Xla 0, o_devices = 2,
     o_child = (\<lambda>idx. \<lparr>default_tensor_type = FloatTensor, sys_stdout = Stdout, runtime = Some (int idx, 2),
        ticks = 0, next_id = 0, latency_list = (\<lambda>_. []), per_token_latency_list = (\<lambda>_. []), trace = []\<rparr>)\<rparr>"

definition state0 :: pstate where
  "state0 = \<lparr>default_tensor_type = FloatTensor, sys_stdout = Stdout, runtime = Some (0, 1),
        ticks = 0, next_id = 0, latency_list = (\<lambda>_. []), per_token_latency_list = (\<lambda>_. []), trace = []\<rparr>"

text \<open>The same world, except that constructing the model raises.\<close>

definition world1 :: world where
  "world1 = world0\<lparr>o_Transformer := (\<lambda>a ty. Inl ''out of memory'')\<rparr>"

section \<open>Lemmas\<close>

declare str_nat.simps [simp del]

lemmas py_defs = bnd_def ret_def raise_def emit_def answer_def refusal_def py_print_def time_time_def
  py_assert_def py_index_def py_truediv_def path_glob_def torch_load_def read_json_def ModelArgs_def
  Tokenizer_def set_default_tensor_type_def Transformer_def load_state_dict_def module_to_def
  xm_xla_device_def LLaMA_def select_shard_def tensor_to_def generate_def
  get_latency_list_def get_per_token_latency_list_def

lemma bnd_assoc: "bnd (bnd m f) g = bnd m (\<lambda>x. bnd (f x) g)"
  by (auto simp: bnd_def fun_eq_iff split: prod.splits sum.splits)

lemma ret_bnd: "bnd (ret x) f = f x"
  by (simp add: bnd_def ret_def fun_eq_iff)

lemma case_prod_bnd: "bnd (case_prod F x) g = case_prod (\<lambda>a b. bnd (F a b) g) x"
  by (cases x) simp

lemma if_bnd: "bnd (if c then m else m') g = (if c then bnd m g else bnd m' g)"
  by simp

lemma load_phases:
  "load w ckpt_dir tokenizer_path rank world_size max_seq_len max_batch_size dev dim n_layers n_heads quant =
     bnd (load_head w ckpt_dir tokenizer_path rank world_size max_seq_len max_batch_size dim n_layers n_heads quant)
       (\<lambda>(start_time, checkpoint, model_args, tokenizer).
     bnd (load_place w ckpt_dir checkpoint model_args dev) (\<lambda>model.
     load_tail model tokenizer start_time))"
  unfolding load_def load_head_def load_place_def load_tail_def load_manifest_def
  by (simp add: bnd_assoc ret_bnd case_prod_bnd cong: if_cong)

lemma reflp_ext: "reflp (ext P)"
  by (auto simp: reflp_def ext_def intro: exI[of _ "[]"])

lemma transp_ext: "transp (ext P)"
  unfolding transp_def ext_def
proof (intro allI impI, elim exE conjE)
  fix x y z :: pstate and es es'
  assume "y = x\<lparr>trace := trace x @ es\<rparr>" "list_all P es" "z = y\<lparr>trace := trace y @ es'\<rparr>" "list_all P es'"
  then have "z = x\<lparr>trace := trace x @ (es @ es')\<rparr> \<and> list_all P (es @ es')" by simp
  then show "\<exists>es. z = x\<lparr>trace := trace x @ es\<rparr> \<and> list_all P es" by blast
qed

lemma frameD: "frame R E m \<Longrightarrow> m s = (r, s') \<Longrightarrow> R s s' \<and> (\<forall>e. r = Inl e \<longrightarrow> E e)"
  by (auto simp: frame_def dest: spec[of _ s])

lemma frame_ret: "reflp R \<Longrightarrow> frame R E (ret x)"
  by (simp add: frame_def ret_def reflp_def)

lemma frame_raise: "reflp R \<Longrightarrow> E e \<Longrightarrow> frame R E (raise e)"
  by (simp add: frame_def raise_def reflp_def)

lemma frame_bnd:
  assumes "transp R" and "frame R E m"
    and "\<And>x. \<exists>s s'. m s = (Inr x, s') \<Longrightarrow> frame R E (f x)"
  shows "frame R E (bnd m f)"
  unfolding frame_def
proof (intro allI)
  fix s
  obtain r s' where ms: "m s = (r, s')" by (cases "m s")
  have R1: "R s s'" using assms(2) ms by (auto simp: frame_def dest: spec[of _ s])
  show "R s (snd (bnd m f s)) \<and> (\<forall>e. fst (bnd m f s) = Inl e \<longrightarrow> E e)"
  proof (cases r)
    case (Inl e)
    then show ?thesis using assms(2) ms R1 by (auto simp: frame_def bnd_def dest: spec[of _ s])
  next
    case (Inr x)
    then have "frame R E (f x)" using assms(3) ms by blast
    then have "R s' (snd (f x s'))" "\<forall>e. fst (f x s') = Inl e \<longrightarrow> E e"
      by (auto simp: frame_def)
    then show ?thesis using R1 Inr ms assms(1) by (auto simp: bnd_def transp_def)
  qed
qed

lemma frame_emit: "P e \<Longrightarrow> frame (ext P) E (emit e)"
  by (auto simp: frame_def emit_def ext_def)

lemma frame_refusal: "reflp R \<Longrightarrow> frame R is_Raised (refusal r)"
  by (auto simp: refusal_def is_Raised_def intro: frame_ret frame_raise split: option.splits)

lemma frame_answer: "reflp R \<Longrightarrow> frame R is_Raised (answer r)"
  by (auto simp: answer_def is_Raised_def intro: frame_ret frame_raise split: sum.splits)

lemma frame_tensor_to: "P (TensorTo t d) \<Longrightarrow> frame (ext P) is_Raised (tensor_to w d t)"
  unfolding tensor_to_def
  by (intro frame_bnd transp_ext frame_emit frame_refusal frame_ret reflp_ext)

lemma frame_migrate_tuple:
  "\<forall>t. P (TensorTo t d) \<Longrightarrow> frame (ext P) is_Raised (migrate_tuple w d ts)"
proof (induction ts)
  case Nil
  then show ?case by (simp add: frame_ret reflp_ext)
next
  case (Cons t ts)
  then show ?case
    by simp (intro frame_bnd transp_ext frame_tensor_to frame_ret reflp_ext, auto)
qed

lemma frame_migrate_cache_kvs:
  "\<forall>t. P (TensorTo t d) \<Longrightarrow> frame (ext P) is_Raised (migrate_cache_kvs w d i k m)"
proof (induction k arbitrary: i m)
  case 0
  then show ?case by (simp add: frame_ret reflp_ext)
next
  case (Suc k)
  show ?case
    by simp (intro frame_bnd transp_ext frame_migrate_tuple Suc.prems Suc.IH)
qed

text \<open>What the two loops return when no transfer raises.\<close>

lemma migrate_tuple_value:
  "migrate_tuple w d ts s = (Inr ts', s') \<Longrightarrow> ts' = map (\<lambda>t. t\<lparr>tdev := d\<rparr>) ts"
proof (induction ts arbitrary: s ts')
  case Nil
  then show ?case by (simp add: ret_def)
next
  case (Cons t ts)
  then show ?case
    by (auto simp: bnd_def ret_def raise_def tensor_to_def emit_def refusal_def
             split: sum.splits prod.splits option.splits)
qed

lemma migrate_cache_kvs_value:
  "migrate_cache_kvs w d i k m s = (Inr m', s') \<Longrightarrow> i + k = length (cache_kvs m) \<Longrightarrow>
     m' = m\<lparr>cache_kvs := take i (cache_kvs m) @ map (map (\<lambda>t. t\<lparr>tdev := d\<rparr>)) (drop i (cache_kvs m))\<rparr>"
proof (induction k arbitrary: i m s)
  case 0
  then show ?case by (simp add: ret_def)
next
  case (Suc k)
  from Suc.prems(1) obtain ts s1 where
    t: "migrate_tuple w d (cache_kvs m ! i) s = (Inr ts, s1)" and
    r: "migrate_cache_kvs w d (Suc i) k (m\<lparr>cache_kvs := (cache_kvs m)[i := ts]\<rparr>) s1 = (Inr m', s')"
    by (auto simp: bnd_def split: sum.splits prod.splits)
  have ts: "ts = map (\<lambda>t. t\<lparr>tdev := d\<rparr>) (cache_kvs m ! i)" using migrate_tuple_value[OF t] .
  have len: "i < length (cache_kvs m)" using Suc.prems(2) by simp
  have "m' = (m\<lparr>cache_kvs := (cache_kvs m)[i := ts]\<rparr>)\<lparr>cache_kvs :=
          take (Suc i) ((cache_kvs m)[i := ts]) @ map (map (\<lambda>t. t\<lparr>tdev := d\<rparr>)) (drop (Suc i) ((cache_kvs m)[i := ts]))\<rparr>"
    using Suc.IH[OF r] Suc.prems(2) by simp
  moreover have "take (Suc i) ((cache_kvs m)[i := ts]) = take i (cache_kvs m) @ [ts]"
    using len by (simp add: take_Suc_conv_app_nth)
  moreover have "drop i (cache_kvs m) = (cache_kvs m ! i) # drop (Suc i) (cache_kvs m)"
    using len by (simp add: Cons_nth_drop_Suc)
  ultimately show ?case using ts by simp
qed

lemma reflp_logs: "reflp (logs P)"
  by (simp add: reflp_def logs_def)

lemma transp_logs: "transp (logs P)"
  unfolding transp_def logs_def
proof (intro allI impI, elim exE conjE)
  fix x y z :: pstate and es es'
  assume a: "sys_stdout y = sys_stdout x" "trace y = trace x @ es" "list_all (P (sys_stdout x)) es"
    "sys_stdout z = sys_stdout y" "trace z = trace y @ es'" "list_all (P (sys_stdout y)) es'"
  then have "trace z = trace x @ (es @ es') \<and> list_all (P (sys_stdout x)) (es @ es')" by simp
  with a show "sys_stdout z = sys_stdout x \<and> (\<exists>es. trace z = trace x @ es \<and> list_all (P (sys_stdout x)) es)"
    by metis
qed

lemma logsD:
  "frame (logs P) E m \<Longrightarrow> m s = (r, s') \<Longrightarrow>
     sys_stdout s' = sys_stdout s \<and> trace s' = trace s @ run_events m s
     \<and> list_all (P (sys_stdout s)) (run_events m s) \<and> (\<forall>e. r = Inl e \<longrightarrow> E e)"
  by (drule frameD, assumption) (auto simp: logs_def run_events_def)

lemma frame_if: "(c \<Longrightarrow> frame R E a) \<Longrightarrow> (\<not> c \<Longrightarrow> frame R E b) \<Longrightarrow> frame R E (if c then a else b)"
  by simp

lemma frame_case_prod: "(\<And>a b. x = (a, b) \<Longrightarrow> frame R E (f a b)) \<Longrightarrow> frame R E (case x of (a, b) \<Rightarrow> f a b)"
  by (cases x) simp

lemma frame_case_option:
  "(x = None \<Longrightarrow> frame R E a) \<Longrightarrow> (\<And>y. x = Some y \<Longrightarrow> frame R E (f y)) \<Longrightarrow>
     frame R E (case x of None \<Rightarrow> a | Some y \<Rightarrow> f y)"
  by (cases x) simp_all

lemma logs_step:
  "(\<And>s. sys_stdout (snd (m s)) = sys_stdout s \<and>
          (\<exists>es. trace (snd (m s)) = trace s @ es \<and> list_all (P (sys_stdout s)) es) \<and>
          (\<forall>e. fst (m s) = Inl e \<longrightarrow> E e)) \<Longrightarrow> frame (logs P) E m"
  by (simp add: frame_def logs_def)

lemma logs_time_time: "frame (logs P) E time_time"
  by (rule logs_step) (simp add: time_time_def)

lemma logs_emit: "\<forall>st. P st e \<Longrightarrow> frame (logs P) E (emit e)"
  by (rule logs_step) (simp add: emit_def)

lemma logs_py_print: "\<forall>st. P st (Print st m) \<Longrightarrow> frame (logs P) E (py_print m)"
  by (rule logs_step) (simp add: py_print_def emit_def)

lemma logs_answer: "\<forall>m. E (Raised m) \<Longrightarrow> frame (logs P) E (answer r)"
  by (rule logs_step) (simp add: answer_def ret_def raise_def split: sum.splits)

lemma logs_refusal: "\<forall>m. E (Raised m) \<Longrightarrow> frame (logs P) E (refusal r)"
  by (rule logs_step) (simp add: refusal_def ret_def raise_def split: option.splits)

lemma logs_set_default_tensor_type:
  "\<forall>st. P st (SetDefaultTensorType t) \<Longrightarrow> frame (logs P) E (set_default_tensor_type t)"
  by (rule logs_step) (simp add: set_default_tensor_type_def)

lemma logs_Transformer:
  "\<forall>st ty. P st (NewTransformer a ty) \<Longrightarrow> \<forall>m. E (Raised m) \<Longrightarrow> frame (logs P) E (Transformer w a)"
  by (rule logs_step)
     (simp add: Transformer_def bnd_def emit_def answer_def ret_def raise_def split: sum.splits)

lemma logs_LLaMA: "frame (logs P) E (LLaMA m t)"
  by (rule logs_step) (simp add: LLaMA_def)

lemma logs_generate:
  "\<forall>st. P st (Generate ps n d t p) \<Longrightarrow> \<forall>m. E (Raised m) \<Longrightarrow> frame (logs P) E (generate w g ps n d t p)"
  by (rule logs_step)
     (simp add: generate_def bnd_def emit_def answer_def ret_def raise_def split: sum.splits prod.splits)

lemma logs_get_latency_list: "frame (logs P) E (get_latency_list g)"
  by (rule logs_step) (simp add: get_latency_list_def)

lemma logs_get_per_token_latency_list: "frame (logs P) E (get_per_token_latency_list g)"
  by (rule logs_step) (simp add: get_per_token_latency_list_def)

lemma logs_py_assert: "(\<not> b \<Longrightarrow> E (AssertionError m)) \<Longrightarrow> frame (logs P) E (py_assert b m)"
  by (rule logs_step) (simp add: py_assert_def ret_def raise_def)

lemma logs_py_index: "E IndexError \<Longrightarrow> frame (logs P) E (py_index xs i)"
  by (rule logs_step) (simp add: py_index_def ret_def raise_def Let_def)

lemma logs_py_truediv: "(n = 0 \<Longrightarrow> E ZeroDivisionError) \<Longrightarrow> frame (logs P) E (py_truediv a n)"
  by (rule logs_step) (simp add: py_truediv_def ret_def raise_def)

lemma logs_xm_xla_device: "(\<not> USE_XLA w \<Longrightarrow> E (NameError ''xm'')) \<Longrightarrow> frame (logs P) E (xm_xla_device w)"
  by (rule logs_step) (simp add: xm_xla_device_def ret_def raise_def)

lemma logs_ret: "frame (logs P) E (ret x)"
  by (rule frame_ret[OF reflp_logs])

lemma logs_raise: "E e \<Longrightarrow> frame (logs P) E (raise e)"
  by (rule frame_raise[OF reflp_logs])

lemma logs_bnd:
  "frame (logs P) E m \<Longrightarrow> (\<And>x. \<exists>s s'. m s = (Inr x, s') \<Longrightarrow> frame (logs P) E (f x)) \<Longrightarrow>
     frame (logs P) E (bnd m f)"
  by (rule frame_bnd[OF transp_logs])

lemma logs_of_ext:
  assumes "frame (ext Q) E' m" "\<forall>st e. Q e \<longrightarrow> P st e" "\<forall>e. E' e \<longrightarrow> E e"
  shows "frame (logs P) E m"
proof (rule logs_step)
  fix s
  obtain r s' where ms: "m s = (r, s')" by (cases "m s")
  from frameD[OF assms(1) ms] obtain es where
    "s' = s\<lparr>trace := trace s @ es\<rparr>" "list_all Q es" "\<forall>e. r = Inl e \<longrightarrow> E' e"
    by (auto simp: ext_def)
  then show "sys_stdout (snd (m s)) = sys_stdout s \<and>
          (\<exists>es. trace (snd (m s)) = trace s @ es \<and> list_all (P (sys_stdout s)) es) \<and>
          (\<forall>e. fst (m s) = Inl e \<longrightarrow> E e)"
    using ms assms(2,3) by (auto simp: list_all_iff)
qed

lemma logs_migrate_cache_kvs:
  "\<forall>st t. P st (TensorTo t d) \<Longrightarrow> \<forall>m. E (Raised m) \<Longrightarrow> frame (logs P) E (migrate_cache_kvs w d i k m)"
  by (rule logs_of_ext[OF frame_migrate_cache_kvs[of "\<lambda>e. \<exists>t. e = TensorTo t d"]])
     (auto simp: is_Raised_def split: error.splits)

lemma logs_print_results:
  "\<forall>st r. P st (Print st (Result r)) \<Longrightarrow> \<forall>st. P st (Print st Separator) \<Longrightarrow>
     frame (logs P) E (print_results rs)"
  by (induction rs) (auto intro!: logs_ret logs_bnd logs_py_print)

lemma logs_timed_calls:
  "\<forall>st r. P st (Print st (Result r)) \<Longrightarrow> \<forall>st. P st (Print st Separator) \<Longrightarrow>
   \<forall>st d. P st (Generate prompts 256 d t p) \<Longrightarrow> \<forall>m. E (Raised m) \<Longrightarrow> E (NameError ''xm'') \<Longrightarrow>
     frame (logs P) E (timed_calls w k t p g)"
  by (induction k) (auto intro!: logs_ret logs_bnd logs_py_print logs_print_results logs_generate logs_xm_xla_device)

lemmas logs_intros = logs_bnd logs_ret logs_raise logs_time_time logs_emit logs_py_print logs_answer
  logs_refusal logs_set_default_tensor_type logs_Transformer logs_LLaMA logs_generate
  logs_get_latency_list logs_get_per_token_latency_list logs_py_assert logs_py_index logs_py_truediv
  logs_xm_xla_device logs_migrate_cache_kvs logs_print_results logs_timed_calls
  frame_if frame_case_prod frame_case_option

lemmas call_defs = path_glob_def torch_load_def read_json_def ModelArgs_def Tokenizer_def
  load_state_dict_def module_to_def select_shard_def

lemma load_no_glob:
  "frame (logs (\<lambda>st e. \<forall>d p. e \<noteq> Glob d p)) is_Raised
     (load w [] tokenizer_path rank world_size max_seq_len max_batch_size dev dim n_layers n_heads quant)"
  unfolding load_def call_defs
  by (intro logs_intros) (auto simp: is_Raised_def)

lemma load_prints:
  "frame (logs (\<lambda>st e. \<forall>st' m. e = Print st' m \<longrightarrow> st' = st)) (\<lambda>_. True)
     (load w ckpt_dir tokenizer_path rank world_size max_seq_len max_batch_size dev dim n_layers n_heads quant)"
  unfolding load_def call_defs Let_def
  by (intro logs_intros) (auto simp: is_Raised_def)

lemma sort0: "sort [''shard1.pth'', ''shard0.pth''] = [''shard0.pth'', ''shard1.pth'']"
  by code_simp

lemma str2: "str_int 2 = ''2''" "str_int 4 = ''4''"
  by (simp_all add: str_int_def str_nat.simps)

subsection \<open>The phases of \<^verbatim>\<open>load\<close>, outcome by outcome\<close>

lemma select_shard_value:
  "select_shard files world_size rank s = (r, s') \<Longrightarrow>
     s' = s \<and>
     (case r of
        Inr name \<Rightarrow> world_size = int (length files) \<and> name = sort files ! shard_index world_size rank
                    \<and> shard_index world_size rank < length files
      | Inl e \<Rightarrow> (world_size \<noteq> int (length files) \<and> e = AssertionError (shard_mismatch (length files) world_size))
                 \<or> (world_size = int (length files) \<and> e = IndexError))"
  by (auto simp: select_shard_def py_assert_def py_index_def bnd_def ret_def raise_def Let_def shard_index_def
           split: if_splits)

lemma load_head_Inr:
  assumes "load_head w ckpt_dir tokenizer_path rank world_size max_seq_len max_batch_size dim n_layers n_heads quant s
             = (Inr (t0, ck, ma, tok), s')"
  shows "t0 = Clock (ticks s) \<and> o_Tokenizer w tokenizer_path = Inr tok \<and>
     (\<exists>ps ma0. o_ModelArgs w max_seq_len max_batch_size ps = Inr ma0 \<and> ma = ma0\<lparr>vocab_size := n_words tok\<rparr> \<and>
       (if ckpt_dir = [] then
          ck = None \<and> ps = [(''dim'', PInt dim), (''n_layers'', PInt n_layers),
                        (''n_heads'', PInt n_heads), (''quant'', PBool quant)] \<and>
          s' = s\<lparr>ticks := Suc (ticks s),
                 trace := trace s @ [Print (sys_stdout s) Loading, NewModelArgs max_seq_len max_batch_size ps,
                                     NewTokenizer tokenizer_path]\<rparr>
        else
          world_size = int (length (o_glob w ckpt_dir ''*.pth'')) \<and>
          shard_index world_size rank < length (o_glob w ckpt_dir ''*.pth'') \<and>
          (\<exists>sd. ck = Some sd \<and>
             o_torch_load w (Path ckpt_dir (sort (o_glob w ckpt_dir ''*.pth'') ! shard_index world_size rank)) = Inr sd) \<and>
          o_read_json w (Path ckpt_dir ''params.json'') = Inr ps \<and>
          s' = s\<lparr>ticks := Suc (ticks s),
                 trace := trace s @ [Print (sys_stdout s) Loading, Glob ckpt_dir ''*.pth'',
                    TorchLoad (Path ckpt_dir (sort (o_glob w ckpt_dir ''*.pth'') ! shard_index world_size rank)),
                    ReadJson (Path ckpt_dir ''params.json''),
                    NewModelArgs max_seq_len max_batch_size ps, NewTokenizer tokenizer_path]\<rparr>))"
  using assms unfolding load_head_def load_manifest_def
  by (auto simp: bnd_def ret_def raise_def emit_def answer_def py_print_def time_time_def path_glob_def
        torch_load_def read_json_def ModelArgs_def Tokenizer_def
      split: sum.splits prod.splits if_splits dest!: select_shard_value)

lemma load_head_any:
  assumes "load_head w ckpt_dir tokenizer_path rank world_size max_seq_len max_batch_size dim n_layers n_heads quant s
             = (r, s')"
  shows "\<exists>es. s' = s\<lparr>ticks := Suc (ticks s), trace := trace s @ Print (sys_stdout s) Loading # es\<rparr>
            \<and> list_all is_head_event es"
  using assms unfolding load_head_def load_manifest_def
  by (auto simp: bnd_def ret_def raise_def emit_def answer_def py_print_def time_time_def path_glob_def
        torch_load_def read_json_def ModelArgs_def Tokenizer_def
      split: sum.splits prod.splits if_splits dest!: select_shard_value)

lemma bndE:
  assumes "bnd m f s = (r, s')"
  obtains (fail) e where "m s = (Inl e, s')" "r = Inl e"
        | (pass) x s1 where "m s = (Inr x, s1)" "f x s1 = (r, s')"
  using assms by (auto simp: bnd_def split: prod.splits sum.splits)

lemma migrate_tuple_trace:
  "migrate_tuple w d ts s = (Inr ts', s') \<Longrightarrow> s' = s\<lparr>trace := trace s @ map (\<lambda>t. TensorTo t d) ts\<rparr>"
proof (induction ts arbitrary: s ts')
  case Nil
  then show ?case by (simp add: ret_def)
next
  case (Cons t ts)
  from Cons.prems obtain ts1 where
    r: "migrate_tuple w d ts (s\<lparr>trace := trace s @ [TensorTo t d]\<rparr>) = (Inr ts1, s')"
    by (auto simp: bnd_def ret_def raise_def tensor_to_def emit_def refusal_def
             split: sum.splits prod.splits option.splits)
  from Cons.IH[OF r] show ?case by simp
qed

lemma migrate_cache_kvs_trace:
  "migrate_cache_kvs w d i k m s = (Inr m', s') \<Longrightarrow> i + k = length (cache_kvs m) \<Longrightarrow>
     s' = s\<lparr>trace := trace s @ map (\<lambda>t. TensorTo t d) (concat (drop i (cache_kvs m)))\<rparr>"
proof (induction k arbitrary: i m s)
  case 0
  then show ?case by (simp add: ret_def)
next
  case (Suc k)
  from Suc.prems(1) obtain ts s1 where
    t: "migrate_tuple w d (cache_kvs m ! i) s = (Inr ts, s1)" and
    r: "migrate_cache_kvs w d (Suc i) k (m\<lparr>cache_kvs := (cache_kvs m)[i := ts]\<rparr>) s1 = (Inr m', s')"
    by (auto simp: bnd_def split: sum.splits prod.splits)
  have len: "i < length (cache_kvs m)" using Suc.prems(2) by simp
  have d: "drop i (cache_kvs m) = (cache_kvs m ! i) # drop (Suc i) (cache_kvs m)"
    using len by (simp add: Cons_nth_drop_Suc)
  have "s' = s1\<lparr>trace := trace s1 @ map (\<lambda>t. TensorTo t d) (concat (drop (Suc i) (cache_kvs m)))\<rparr>"
    using Suc.IH[OF r] Suc.prems(2) by simp
  then show ?case using migrate_tuple_trace[OF t] d by simp
qed

lemma migrate_cache_kvs_Inr:
  "migrate_cache_kvs w d i k m s = (Inr m', s') \<Longrightarrow>
     (i + k = length (cache_kvs m) \<longrightarrow>
        m' = m\<lparr>cache_kvs := take i (cache_kvs m) @ map (map (\<lambda>t. t\<lparr>tdev := d\<rparr>)) (drop i (cache_kvs m))\<rparr>
        \<and> s' = s\<lparr>trace := trace s @ map (\<lambda>t. TensorTo t d) (concat (drop i (cache_kvs m)))\<rparr>)"
  using migrate_cache_kvs_value migrate_cache_kvs_trace by blast

lemma migrate_cache_kvs_any:
  "migrate_cache_kvs w d i k m s = (r, s') \<Longrightarrow>
     (\<exists>es. s' = s\<lparr>trace := trace s @ es\<rparr> \<and> list_all is_place_event es) \<and> (\<forall>e. r = Inl e \<longrightarrow> is_Raised e)"
  using frameD[OF frame_migrate_cache_kvs[of is_place_event d w i k m], of s r s']
  by (simp add: ext_def)

lemma load_place_any:
  assumes "load_place w ckpt_dir ck ma dev s = (r, s')"
  shows "\<exists>es. s' = s\<lparr>default_tensor_type := override w,
                      trace := trace s @ SetDefaultTensorType (override w) # NewTransformer ma (override w) # es\<rparr>
              \<and> list_all is_place_event es"
  using assms unfolding load_place_def
  by (auto simp: bnd_def ret_def raise_def emit_def answer_def refusal_def set_default_tensor_type_def
        Transformer_def load_state_dict_def module_to_def override_def
      split: sum.splits prod.splits if_splits option.splits dest!: migrate_cache_kvs_any)

lemma load_place_Inr:
  assumes "load_place w ckpt_dir ck ma dev s = (Inr m', s')"
  shows "\<exists>m0. o_Transformer w ma (override w) = Inr m0 \<and>
           cache_kvs m' = map (map (\<lambda>t. t\<lparr>tdev := dev\<rparr>)) (cache_kvs m0) \<and>
           list_all (\<lambda>(k, t). tdev t = dev) (parameters m') \<and>
           map fst (parameters m') = map fst (parameters m0) \<and>
           (ckpt_dir \<noteq> [] \<longrightarrow> ck \<noteq> None) \<and>
           s' = s\<lparr>default_tensor_type := override w,
                  trace := trace s @ [SetDefaultTensorType (override w), NewTransformer ma (override w)]
                     @ (if ckpt_dir \<noteq> [] then [LoadStateDict] else []) @ [ModuleTo dev]
                     @ map (\<lambda>t. TensorTo t dev) (concat (cache_kvs m0))\<rparr>"
  using assms unfolding load_place_def
  by (auto simp: bnd_def ret_def raise_def emit_def answer_def refusal_def set_default_tensor_type_def
        Transformer_def load_state_dict_def module_to_def override_def list_all_iff
      split: sum.splits prod.splits if_splits option.splits
      dest!: migrate_cache_kvs_Inr)

lemma load_tail_eq:
  "load_tail model tok t0 s =
     (Inr \<lparr>llama_model = model, llama_tokenizer = tok, gid = next_id s\<rparr>,
      s\<lparr>default_tensor_type := FloatTensor, ticks := Suc (ticks s), next_id := Suc (next_id s),
        latency_list := (latency_list s)(next_id s := []),
        per_token_latency_list := (per_token_latency_list s)(next_id s := []),
        trace := trace s @ [SetDefaultTensorType FloatTensor,
                            Print (sys_stdout s) (Loaded (Sub (Clock (ticks s)) t0))]\<rparr>)"
  by (simp add: load_tail_def bnd_def ret_def set_default_tensor_type_def LLaMA_def time_time_def
        py_print_def emit_def)

lemma loads_append: "loads (es @ es') = loads es @ loads es'"
  by (induction es rule: loads.induct) simp_all

lemma loads_place: "list_all is_place_event es \<Longrightarrow> loads es = []"
  by (induction es rule: loads.induct) simp_all

lemma load_cases:
  assumes "load w ckpt_dir tokenizer_path rank world_size max_seq_len max_batch_size dev dim n_layers n_heads quant s = (r, s')"
  obtains (head) e where
      "load_head w ckpt_dir tokenizer_path rank world_size max_seq_len max_batch_size dim n_layers n_heads quant s = (Inl e, s')"
      "r = Inl e"
  | (place) e t0 ck ma tok s1 where
      "load_head w ckpt_dir tokenizer_path rank world_size max_seq_len max_batch_size dim n_layers n_heads quant s
         = (Inr (t0, ck, ma, tok), s1)"
      "load_place w ckpt_dir ck ma dev s1 = (Inl e, s')" "r = Inl e"
  | (tail) t0 ck ma tok s1 m s2 where
      "load_head w ckpt_dir tokenizer_path rank world_size max_seq_len max_batch_size dim n_layers n_heads quant s
         = (Inr (t0, ck, ma, tok), s1)"
      "load_place w ckpt_dir ck ma dev s1 = (Inr m, s2)" "load_tail m tok t0 s2 = (r, s')"
proof -
  from assms[unfolded load_phases] show thesis
  proof (cases rule: bndE)
    case (fail e)
    then show ?thesis using head by blast
  next
    case (pass x s1)
    obtain t0 ck ma tok where x: "x = (t0, ck, ma, tok)" by (cases x)
    from pass(2)[unfolded x] have "bnd (load_place w ckpt_dir ck ma dev) (\<lambda>model. load_tail model tok t0) s1 = (r, s')"
      by simp
    then show ?thesis
    proof (cases rule: bndE)
      case (fail e)
      then show ?thesis using place pass(1) x by blast
    next
      case (pass m s2)
      then show ?thesis using tail \<open>load_head w ckpt_dir tokenizer_path rank world_size max_seq_len max_batch_size dim n_layers n_heads quant s = (Inr x, s1)\<close> x by blast
    qed
  qed
qed

lemma head_not: "list_all is_head_event es \<Longrightarrow> SetDefaultTensorType t \<notin> set es"
  by (auto simp: list_all_iff)

lemma load_head_run:
  assumes "load_head w ckpt_dir tokenizer_path rank world_size max_seq_len max_batch_size dim n_layers n_heads quant s
             = (r, s')"
  shows "\<exists>es. s' = s\<lparr>ticks := Suc (ticks s), trace := trace s @ Print (sys_stdout s) Loading # es\<rparr>
     \<and> list_all is_head_event es
     \<and> (if ckpt_dir = [] then
           \<exists>es'. es = NewModelArgs max_seq_len max_batch_size (default_params dim n_layers n_heads quant) # es'
                 \<and> list_all (\<lambda>e. e = NewTokenizer tokenizer_path) es'
         else
           (loads es = [] \<or> loads es = [shard_path w ckpt_dir world_size rank]) \<and>
           (world_size = int (length (o_glob w ckpt_dir ''*.pth'')) \<longrightarrow>
              r = Inl IndexError \<or> loads es = [shard_path w ckpt_dir world_size rank]))
     \<and> (case r of
           Inl e \<Rightarrow> is_Raised e \<or>
             (ckpt_dir \<noteq> [] \<and>
              e = (if world_size = int (length (o_glob w ckpt_dir ''*.pth'')) then IndexError
                   else AssertionError (shard_mismatch (length (o_glob w ckpt_dir ''*.pth'')) world_size)))
         | Inr x \<Rightarrow> \<exists>es0. es = es0 @ [NewTokenizer tokenizer_path])"
  using assms unfolding load_head_def load_manifest_def
  by (auto simp: bnd_def ret_def raise_def emit_def answer_def py_print_def time_time_def path_glob_def
        torch_load_def read_json_def ModelArgs_def Tokenizer_def is_Raised_def default_params_def shard_path_def
      split: sum.splits prod.splits if_splits dest!: select_shard_value)

lemma migrate_cache_kvs_transfers:
  assumes "migrate_cache_kvs w d i k m s = (r, s')"
  shows "(\<exists>es. s' = s\<lparr>trace := trace s @ es\<rparr> \<and> list_all is_place_event es \<and> LoadStateDict \<notin> set es)
     \<and> (\<forall>e. r = Inl e \<longrightarrow> is_Raised e)"
proof -
  from frameD[OF frame_migrate_cache_kvs[of "\<lambda>e. \<exists>t. e = TensorTo t d" d w i k m] assms]
  obtain es where es: "s' = s\<lparr>trace := trace s @ es\<rparr>" "list_all (\<lambda>e. \<exists>t. e = TensorTo t d) es"
    and r: "\<forall>e. r = Inl e \<longrightarrow> is_Raised e"
    by (auto simp: ext_def)
  from es(2) have "list_all is_place_event es \<and> LoadStateDict \<notin> set es"
    by (auto simp: list_all_iff)
  with es(1) r show ?thesis by blast
qed

lemma load_place_run:
  assumes "load_place w ckpt_dir ck ma dev s = (r, s')"
  shows "\<exists>es. s' = s\<lparr>default_tensor_type := override w,
                      trace := trace s @ SetDefaultTensorType (override w) # NewTransformer ma (override w) # es\<rparr>
     \<and> list_all is_place_event es
     \<and> (ckpt_dir = [] \<longrightarrow> LoadStateDict \<notin> set es)
     \<and> (\<forall>e. r = Inl e \<longrightarrow> is_Raised e \<or> (ckpt_dir \<noteq> [] \<and> ck = None))"
  using assms unfolding load_place_def
  by (auto simp: bnd_def ret_def raise_def emit_def answer_def refusal_def set_default_tensor_type_def
        Transformer_def load_state_dict_def module_to_def override_def is_Raised_def
      split: sum.splits prod.splits if_splits option.splits dest!: migrate_cache_kvs_transfers)

subsection \<open>Every run of \<^verbatim>\<open>load\<close>\<close>

text \<open>
  The events of a run of \<^verbatim>\<open>load\<close> are the line \<^verbatim>\<open>Loading\<close>, then the events of the part
  before the override, then, if that part returned, the override, the construction of the
  model and what placement and the last lines add.
\<close>

lemma load_run:
  assumes "load w ckpt_dir tokenizer_path rank world_size max_seq_len max_batch_size dev dim n_layers n_heads quant s = (r, s')"
  shows "\<exists>es1 es2.
      trace s' = trace s @ Print (sys_stdout s) Loading # es1 @ es2
      \<and> list_all is_head_event es1
      \<and> (if ckpt_dir = [] then
           \<exists>es'. es1 = NewModelArgs max_seq_len max_batch_size (default_params dim n_layers n_heads quant) # es'
                 \<and> list_all (\<lambda>e. e = NewTokenizer tokenizer_path) es'
         else
           (loads es1 = [] \<or> loads es1 = [shard_path w ckpt_dir world_size rank]) \<and>
           (world_size = int (length (o_glob w ckpt_dir ''*.pth'')) \<longrightarrow>
              r = Inl IndexError \<or> loads es1 = [shard_path w ckpt_dir world_size rank]))
      \<and> (es2 = [] \<and> (\<exists>e. r = Inl e)
         \<or> (\<exists>tok ps ma0 es0 es3.
               o_Tokenizer w tokenizer_path = Inr tok \<and> o_ModelArgs w max_seq_len max_batch_size ps = Inr ma0
               \<and> es1 = es0 @ [NewTokenizer tokenizer_path]
               \<and> es2 = SetDefaultTensorType (override w)
                        # NewTransformer (ma0\<lparr>vocab_size := n_words tok\<rparr>) (override w) # es3
               \<and> list_all (\<lambda>e. is_place_event e \<or> is_tail_event e) es3
               \<and> (ckpt_dir = [] \<longrightarrow> LoadStateDict \<notin> set es3)))
      \<and> (case r of
            Inl e \<Rightarrow> is_Raised e \<or>
              (ckpt_dir \<noteq> [] \<and>
               e = (if world_size = int (length (o_glob w ckpt_dir ''*.pth'')) then IndexError
                    else AssertionError (shard_mismatch (length (o_glob w ckpt_dir ''*.pth'')) world_size)))
          | Inr g \<Rightarrow> ckpt_dir \<noteq> [] \<longrightarrow> loads es1 = [shard_path w ckpt_dir world_size rank])"
  using assms
proof (cases rule: load_cases)
  case (head e)
  from load_head_run[OF head(1)] obtain es where
    s': "s' = s\<lparr>ticks := Suc (ticks s), trace := trace s @ Print (sys_stdout s) Loading # es\<rparr>"
    and es: "list_all is_head_event es"
    and ck: "if ckpt_dir = [] then
           \<exists>es'. es = NewModelArgs max_seq_len max_batch_size (default_params dim n_layers n_heads quant) # es'
                 \<and> list_all (\<lambda>e. e = NewTokenizer tokenizer_path) es'
         else
           (loads es = [] \<or> loads es = [shard_path w ckpt_dir world_size rank]) \<and>
           (world_size = int (length (o_glob w ckpt_dir ''*.pth'')) \<longrightarrow>
              Inl e = (Inl IndexError :: error + (pynum \<times> state_dict option \<times> model_args \<times> tokenizer))
              \<or> loads es = [shard_path w ckpt_dir world_size rank])"
    and er: "is_Raised e \<or>
             (ckpt_dir \<noteq> [] \<and>
              e = (if world_size = int (length (o_glob w ckpt_dir ''*.pth'')) then IndexError
                   else AssertionError (shard_mismatch (length (o_glob w ckpt_dir ''*.pth'')) world_size)))"
    by auto
  show ?thesis
    apply (rule exI[of _ es], rule exI[of _ "[]"])
    using s' es ck er head(2) by (auto split: if_splits)
next
  case (place e t0 ck ma tok s1)
  from load_head_run[OF place(1)] obtain es where
    s1: "s1 = s\<lparr>ticks := Suc (ticks s), trace := trace s @ Print (sys_stdout s) Loading # es\<rparr>"
    and es: "list_all is_head_event es"
    and ckf: "if ckpt_dir = [] then
           \<exists>es'. es = NewModelArgs max_seq_len max_batch_size (default_params dim n_layers n_heads quant) # es'
                 \<and> list_all (\<lambda>e. e = NewTokenizer tokenizer_path) es'
         else
           loads es = [shard_path w ckpt_dir world_size rank]"
    and es0: "\<exists>es0. es = es0 @ [NewTokenizer tokenizer_path]"
    using load_head_Inr[OF place(1)] by (auto split: if_splits)
  from load_head_Inr[OF place(1)] obtain ps ma0 where
    tok: "o_Tokenizer w tokenizer_path = Inr tok" and ma0: "o_ModelArgs w max_seq_len max_batch_size ps = Inr ma0"
    and ma: "ma = ma0\<lparr>vocab_size := n_words tok\<rparr>" and cks: "ckpt_dir \<noteq> [] \<longrightarrow> ck \<noteq> None"
    by (auto split: if_splits)
  from load_place_run[OF place(2)] obtain es' where
    s': "s' = s1\<lparr>default_tensor_type := override w,
                      trace := trace s1 @ SetDefaultTensorType (override w) # NewTransformer ma (override w) # es'\<rparr>"
    and es': "list_all is_place_event es'" and nl: "ckpt_dir = [] \<longrightarrow> LoadStateDict \<notin> set es'"
    and er: "is_Raised e \<or> (ckpt_dir \<noteq> [] \<and> ck = None)"
    by auto
  have pt: "list_all (\<lambda>e. is_place_event e \<or> is_tail_event e) es'"
    using es' by (auto simp: list_all_iff)
  show ?thesis
    apply (rule exI[of _ es], rule exI[of _ "SetDefaultTensorType (override w) # NewTransformer ma (override w) # es'"])
    using s' s1 es ckf es0 tok ma0 ma cks pt nl er place(3) by (auto split: if_splits)
next
  case (tail t0 ck ma tok s1 m s2)
  from load_head_run[OF tail(1)] obtain es where
    s1: "s1 = s\<lparr>ticks := Suc (ticks s), trace := trace s @ Print (sys_stdout s) Loading # es\<rparr>"
    and es: "list_all is_head_event es"
    and ckf: "if ckpt_dir = [] then
           \<exists>es'. es = NewModelArgs max_seq_len max_batch_size (default_params dim n_layers n_heads quant) # es'
                 \<and> list_all (\<lambda>e. e = NewTokenizer tokenizer_path) es'
         else
           loads es = [shard_path w ckpt_dir world_size rank]"
    and es0: "\<exists>es0. es = es0 @ [NewTokenizer tokenizer_path]"
    using load_head_Inr[OF tail(1)] by (auto split: if_splits)
  from load_head_Inr[OF tail(1)] obtain ps ma0 where
    tok: "o_Tokenizer w tokenizer_path = Inr tok" and ma0: "o_ModelArgs w max_seq_len max_batch_size ps = Inr ma0"
    and ma: "ma = ma0\<lparr>vocab_size := n_words tok\<rparr>"
    by (auto split: if_splits)
  from load_place_run[OF tail(2)] obtain es' where
    s2: "s2 = s1\<lparr>default_tensor_type := override w,
                      trace := trace s1 @ SetDefaultTensorType (override w) # NewTransformer ma (override w) # es'\<rparr>"
    and es': "list_all is_place_event es'" and nl: "ckpt_dir = [] \<longrightarrow> LoadStateDict \<notin> set es'"
    by auto
  let ?tl = "[SetDefaultTensorType FloatTensor, Print (sys_stdout s) (Loaded (Sub (Clock (Suc (ticks s))) t0))]"
  have pt: "list_all (\<lambda>e. is_place_event e \<or> is_tail_event e) (es' @ ?tl)"
    using es' by (auto simp: list_all_iff)
  have nl': "ckpt_dir = [] \<longrightarrow> LoadStateDict \<notin> set (es' @ ?tl)" using nl by simp
  have tr: "trace s' = trace s @ Print (sys_stdout s) Loading # es @
       (SetDefaultTensorType (override w) # NewTransformer ma (override w) # (es' @ ?tl))"
    and r: "\<exists>g. r = Inr g"
    using tail(3) by (auto simp: load_tail_eq s2 s1)
  show ?thesis
    apply (rule exI[of _ es], rule exI[of _ "SetDefaultTensorType (override w) # NewTransformer ma (override w) # (es' @ ?tl)"])
    using tr r es ckf es0 tok ma0 ma pt nl' by (auto split: if_splits)
qed

lemma loads_set: "p \<in> set (loads es) \<longleftrightarrow> TorchLoad p \<in> set es"
  by (induction es rule: loads.induct) auto

lemma loads_later: "list_all (\<lambda>e. is_place_event e \<or> is_tail_event e) es \<Longrightarrow> loads es = []"
  by (induction es rule: loads.induct) simp_all

lemma loads_tokenizers: "list_all (\<lambda>e. e = NewTokenizer p) es \<Longrightarrow> loads es = []"
  by (induction es rule: loads.induct) simp_all

lemma later_not_weight:
  "list_all (\<lambda>e. is_place_event e \<or> is_tail_event e) es \<Longrightarrow> LoadStateDict \<notin> set es \<Longrightarrow>
     list_all (\<lambda>e. \<not> is_weight_event e) es \<and> (\<forall>a b c. NewModelArgs a b c \<notin> set es)"
proof (induction es)
  case Nil
  then show ?case by simp
next
  case (Cons e es)
  then show ?case by (cases e) auto
qed

lemma later_not_Transformer:
  "list_all (\<lambda>e. is_place_event e \<or> is_tail_event e) es \<Longrightarrow> NewTransformer a ty \<notin> set es"
  by (auto simp: list_all_iff)

lemma head_not_Transformer: "list_all is_head_event es \<Longrightarrow> NewTransformer a ty \<notin> set es"
  by (auto simp: list_all_iff)

lemma sort_mset: "mset xs = mset ys \<Longrightarrow> sort xs = sort ys"
  by (metis mset_sort properties_for_sort sorted_sort)

section \<open>The claims\<close>

text \<open>
  C10. Without a checkpoint directory \<^verbatim>\<open>load\<close> does not use \<open>rank\<close> and \<open>world_size\<close>: the
  run is the same for any two pairs of values, it never lists a directory, and it raises
  only what a collaborator raises (so neither the shard-count assertion nor an index
  error). With a checkpoint directory and \<open>rank \<ge> world_size\<close> it stops at the shard count
  or at the indexing of the sorted shard list.
\<close>

theorem load_without_checkpoint_ignores_topology:
  "load w [] tokenizer_path rank world_size max_seq_len max_batch_size dev dim n_layers n_heads quant s
     = load w [] tokenizer_path rank' world_size' max_seq_len max_batch_size dev dim n_layers n_heads quant s
   \<and> (\<forall>d p. Glob d p \<notin> set (run_events
          (load w [] tokenizer_path rank world_size max_seq_len max_batch_size dev dim n_layers n_heads quant) s))
   \<and> (\<forall>e. fst (load w [] tokenizer_path rank world_size max_seq_len max_batch_size dev dim n_layers n_heads quant s)
            = Inl e \<longrightarrow> is_Raised e)
   \<and> (ckpt_dir \<noteq> [] \<and> world_size \<le> rank \<longrightarrow>
        fst (load w ckpt_dir tokenizer_path rank world_size max_seq_len max_batch_size dev dim n_layers n_heads quant s)
          \<in> {Inl IndexError,
              Inl (AssertionError (shard_mismatch (length (o_glob w ckpt_dir ''*.pth'')) world_size))})"
proof (intro conjI)
  show "load w [] tokenizer_path rank world_size max_seq_len max_batch_size dev dim n_layers n_heads quant s
     = load w [] tokenizer_path rank' world_size' max_seq_len max_batch_size dev dim n_layers n_heads quant s"
    by (simp add: load_def)
next
  let ?m = "load w [] tokenizer_path rank world_size max_seq_len max_batch_size dev dim n_layers n_heads quant"
  obtain r s' where ms: "?m s = (r, s')" by (cases "?m s")
  from logsD[OF load_no_glob ms]
  show "\<forall>d p. Glob d p \<notin> set (run_events ?m s)" "\<forall>e. fst (?m s) = Inl e \<longrightarrow> is_Raised e"
    using ms by (auto simp: list_all_iff)
next
  show "ckpt_dir \<noteq> [] \<and> world_size \<le> rank \<longrightarrow>
        fst (load w ckpt_dir tokenizer_path rank world_size max_seq_len max_batch_size dev dim n_layers n_heads quant s)
          \<in> {Inl IndexError,
              Inl (AssertionError (shard_mismatch (length (o_glob w ckpt_dir ''*.pth'')) world_size))}"
    by (simp add: load_phases load_head_def load_manifest_def bnd_def time_time_def py_print_def emit_def
          path_glob_def ret_def raise_def select_shard_def py_assert_def py_index_def Let_def)
qed

theorem load_without_checkpoint_ignores_topology_witness:
  "fst (load world0 [] ''tokenizer.model'' 5 1 512 32 (Xla 0) 256 4 4 False state0)
     = fst (load world0 [] ''tokenizer.model'' 0 1 512 32 (Xla 0) 256 4 4 False state0)
   \<and> (\<exists>g. fst (load world0 [] ''tokenizer.model'' 5 1 512 32 (Xla 0) 256 4 4 False state0) = Inr g)
   \<and> ''ckpt'' \<noteq> [] \<and> (2::int) \<le> 2
   \<and> fst (load world0 ''ckpt'' ''tokenizer.model'' 2 2 512 32 (Xla 0) 256 4 4 False state0) = Inl IndexError"
  using load_without_checkpoint_ignores_topology[of world0 "''tokenizer.model''" 5 1 512 32 "Xla 0" 256 4 4 False state0 0 1 "''ckpt''"]
  by (simp add: load_def py_defs world0_def state0_def sort0 Let_def run_events_def is_Raised_def)

text \<open>
  C1, as the code has it. \<^verbatim>\<open>load\<close> does not save the default tensor type: it installs the
  override (half precision under \<^verbatim>\<open>USE_CUDA\<close>, bfloat16 otherwise) and, after the cache
  migration, sets \<^verbatim>\<open>FloatTensor\<close>, with no handler around the statements in between. So
  after a successful return the default is \<^verbatim>\<open>FloatTensor\<close>, whatever it was before; when
  \<^verbatim>\<open>load\<close> raises before the override is installed the default is unchanged; when it
  raises after, the override is the default.
\<close>

theorem load_default_tensor_type:
  assumes "load w ckpt_dir tokenizer_path rank world_size max_seq_len max_batch_size dev dim n_layers n_heads quant s = (r, s')"
  shows "default_tensor_type s' =
     (case r of
        Inr g \<Rightarrow> FloatTensor
      | Inl e \<Rightarrow>
          if SetDefaultTensorType (override w)
               \<in> set (run_events (load w ckpt_dir tokenizer_path rank world_size max_seq_len max_batch_size dev
                                       dim n_layers n_heads quant) s)
          then override w else default_tensor_type s)"
  using assms
proof (cases rule: load_cases)
  case (head e)
  from load_head_any[OF head(1)] obtain es where
    s': "s' = s\<lparr>ticks := Suc (ticks s), trace := trace s @ Print (sys_stdout s) Loading # es\<rparr>"
    and es: "list_all is_head_event es" by blast
  have "run_events (load w ckpt_dir tokenizer_path rank world_size max_seq_len max_batch_size dev
                                       dim n_layers n_heads quant) s = Print (sys_stdout s) Loading # es"
    using assms by (simp add: run_events_def s')
  then show ?thesis using head(2) s' head_not[OF es] by simp
next
  case (place e t0 ck ma tok s1)
  from load_head_any[OF place(1)] obtain es where
    s1: "s1 = s\<lparr>ticks := Suc (ticks s), trace := trace s @ Print (sys_stdout s) Loading # es\<rparr>" by blast
  from load_place_any[OF place(2)] obtain es' where
    s': "s' = s1\<lparr>default_tensor_type := override w,
                      trace := trace s1 @ SetDefaultTensorType (override w) # NewTransformer ma (override w) # es'\<rparr>"
    by blast
  have "run_events (load w ckpt_dir tokenizer_path rank world_size max_seq_len max_batch_size dev
                                       dim n_layers n_heads quant) s
          = Print (sys_stdout s) Loading # es @ SetDefaultTensorType (override w) # NewTransformer ma (override w) # es'"
    using assms by (simp add: run_events_def s' s1)
  then show ?thesis using place(3) s' by simp
next
  case (tail t0 ck ma tok s1 m s2)
  then show ?thesis by (auto simp: load_tail_eq)
qed

theorem load_default_tensor_type_witness:
  "(\<exists>g. fst (load world0 [] ''tokenizer.model'' 0 1 512 32 (Xla 0) 256 4 4 False state0) = Inr g)
   \<and> default_tensor_type (snd (load world0 [] ''tokenizer.model'' 0 1 512 32 (Xla 0) 256 4 4 False state0))
       = FloatTensor"
  using load_default_tensor_type[of world0 "[]" "''tokenizer.model''" 0 1 512 32 "Xla 0" 256 4 4 False state0
     "fst (load world0 [] ''tokenizer.model'' 0 1 512 32 (Xla 0) 256 4 4 False state0)"
     "snd (load world0 [] ''tokenizer.model'' 0 1 512 32 (Xla 0) 256 4 4 False state0)"]
  by (simp add: load_def py_defs world0_def state0_def Let_def)

text \<open>
  The claim as stated fails: in a process whose default is \<^verbatim>\<open>FloatTensor\<close>, with no
  checkpoint directory and a model constructor that raises, \<^verbatim>\<open>load\<close> raises and leaves
  \<^verbatim>\<open>BFloat16Tensor\<close> as the default.
\<close>

theorem load_precision_leak:
  "default_tensor_type state0 = FloatTensor
   \<and> fst (load world1 [] ''tokenizer.model'' 0 1 512 32 (Xla 0) 256 4 4 False state0) = Inl (Raised ''out of memory'')
   \<and> default_tensor_type (snd (load world1 [] ''tokenizer.model'' 0 1 512 32 (Xla 0) 256 4 4 False state0))
       = BFloat16Tensor"
  by (simp add: load_def py_defs world1_def world0_def state0_def Let_def)

text \<open>
  C2. Let the checkpoint directory hold \<open>k\<close> shard files. With \<open>world_size = k\<close> no run of
  \<^verbatim>\<open>load\<close> ends in an assertion error, and the run goes on to index the sorted list: it
  either raises the index error of an out-of-range rank or asks torch for the selected
  shard. With \<open>world_size \<noteq> k\<close> the run ends in the assertion error whose message gives
  both counts, and all it has done by then is to read the clock, to print \<^verbatim>\<open>Loading\<close> and
  to list the directory: no file read, no model, no transfer.
\<close>

theorem load_shard_count_check:
  assumes "ckpt_dir \<noteq> []" and "length (o_glob w ckpt_dir ''*.pth'') = k"
  shows "(world_size = int k \<longrightarrow>
            (\<forall>m. fst (load w ckpt_dir tokenizer_path rank world_size max_seq_len max_batch_size dev
                           dim n_layers n_heads quant s) \<noteq> Inl (AssertionError m))
            \<and> (fst (load w ckpt_dir tokenizer_path rank world_size max_seq_len max_batch_size dev
                          dim n_layers n_heads quant s) = Inl IndexError
               \<or> TorchLoad (shard_path w ckpt_dir world_size rank)
                   \<in> set (run_events (load w ckpt_dir tokenizer_path rank world_size max_seq_len max_batch_size
                                          dev dim n_layers n_heads quant) s)))
       \<and> (world_size \<noteq> int k \<longrightarrow>
            load w ckpt_dir tokenizer_path rank world_size max_seq_len max_batch_size dev
                 dim n_layers n_heads quant s
              = (Inl (AssertionError (''Loading a checkpoint for MP='' @ str_int (int k)
                                       @ '' but world size is '' @ str_int world_size)),
                 s\<lparr>ticks := Suc (ticks s),
                   trace := trace s @ [Print (sys_stdout s) Loading, Glob ckpt_dir ''*.pth'']\<rparr>))"
proof (intro conjI impI)
  let ?m = "load w ckpt_dir tokenizer_path rank world_size max_seq_len max_batch_size dev
                 dim n_layers n_heads quant"
  obtain r s' where ms: "?m s = (r, s')" by (cases "?m s")
  from load_run[OF ms] obtain es1 es2 where
    tr: "trace s' = trace s @ Print (sys_stdout s) Loading # es1 @ es2"
    and ld: "world_size = int (length (o_glob w ckpt_dir ''*.pth'')) \<longrightarrow>
              r = Inl IndexError \<or> loads es1 = [shard_path w ckpt_dir world_size rank]"
    and er: "case r of
            Inl e \<Rightarrow> is_Raised e \<or>
              (ckpt_dir \<noteq> [] \<and>
               e = (if world_size = int (length (o_glob w ckpt_dir ''*.pth'')) then IndexError
                    else AssertionError (shard_mismatch (length (o_glob w ckpt_dir ''*.pth'')) world_size)))
          | Inr g \<Rightarrow> ckpt_dir \<noteq> [] \<longrightarrow> loads es1 = [shard_path w ckpt_dir world_size rank]"
    using assms(1) by auto
  have ev: "run_events ?m s = Print (sys_stdout s) Loading # es1 @ es2"
    using ms tr by (simp add: run_events_def)
  assume eq: "world_size = int k"
  show "\<forall>m. fst (?m s) \<noteq> Inl (AssertionError m)"
    using er ms eq assms(2) by (auto simp: is_Raised_def split: sum.splits error.splits)
  show "fst (?m s) = Inl IndexError \<or> TorchLoad (shard_path w ckpt_dir world_size rank) \<in> set (run_events ?m s)"
  proof (cases "r = Inl IndexError")
    case True
    then show ?thesis using ms by simp
  next
    case False
    then have "loads es1 = [shard_path w ckpt_dir world_size rank]" using ld eq assms(2) by simp
    then have "shard_path w ckpt_dir world_size rank \<in> set (loads es1)" by simp
    then show ?thesis unfolding ev loads_set by simp
  qed
next
  assume "world_size \<noteq> int k"
  then show "load w ckpt_dir tokenizer_path rank world_size max_seq_len max_batch_size dev
                 dim n_layers n_heads quant s
              = (Inl (AssertionError (''Loading a checkpoint for MP='' @ str_int (int k)
                                       @ '' but world size is '' @ str_int world_size)),
                 s\<lparr>ticks := Suc (ticks s),
                   trace := trace s @ [Print (sys_stdout s) Loading, Glob ckpt_dir ''*.pth'']\<rparr>)"
    using assms
    by (simp add: load_phases load_head_def load_manifest_def bnd_def time_time_def py_print_def emit_def
          path_glob_def ret_def raise_def select_shard_def py_assert_def shard_mismatch_def)
qed

theorem load_shard_count_check_witness:
  "''ckpt'' \<noteq> [] \<and> length (o_glob world0 ''ckpt'' ''*.pth'') = 2 \<and> (2::int) = int 2 \<and> (4::int) \<noteq> int 2
   \<and> TorchLoad (Path ''ckpt'' ''shard1.pth'')
       \<in> set (run_events (load world0 ''ckpt'' ''tokenizer.model'' 1 2 512 32 (Xla 0) 256 4 4 False) state0)
   \<and> load world0 ''ckpt'' ''tokenizer.model'' 1 4 512 32 (Xla 0) 256 4 4 False state0
       = (Inl (AssertionError ''Loading a checkpoint for MP=2 but world size is 4''),
          state0\<lparr>ticks := 1, trace := [Print Stdout Loading, Glob ''ckpt'' ''*.pth'']\<rparr>)"
  using load_shard_count_check[of "''ckpt''" world0 2 2 "''tokenizer.model''" 1 512 32 "Xla 0" 256 4 4 False state0]
    load_shard_count_check[of "''ckpt''" world0 2 4 "''tokenizer.model''" 1 512 32 "Xla 0" 256 4 4 False state0]
  by (simp add: load_def py_defs world0_def state0_def sort0 str2 Let_def run_events_def shard_path_def shard_index_def)

end
